theory Spec2Isabelle
  imports Main
begin

section \<open>The Go time package, as far as gcal uses it\<close>

text \<open>
  gcal (src/main.go) reads the clock, builds midnights with \<open>time.Date\<close>, renders them
  with \<open>Format\<close>, and parses the start markers of events with \<open>time.Parse\<close>. These
  functions belong to the Go standard library, so they are modelled here after the
  library's documented behaviour: the proleptic Gregorian calendar, computed the way
  the library's \<open>daysSinceEpoch\<close>, \<open>absDate\<close> and \<open>Date\<close> compute it. Days are counted
  from 0001-01-01 with unbounded integers and floor division, where the library shifts
  to an unsigned count from a remote epoch. Nanoseconds are left out: no output of gcal
  reads them.
\<close>

definition isLeap :: "int \<Rightarrow> bool" where
  "isLeap year = (year mod 4 = 0 \<and> (year mod 100 \<noteq> 0 \<or> year mod 400 = 0))"

text \<open>\<open>daysBefore m\<close> is the number of days of a non-leap year before month \<open>m + 1\<close>.\<close>

definition daysBefore :: "int \<Rightarrow> int" where
  "daysBefore m = [0, 31, 59, 90, 120, 151, 181, 212, 243, 273, 304, 334, 365] ! nat m"

definition daysIn :: "int \<Rightarrow> int \<Rightarrow> int" where
  "daysIn m year =
     (if m = 2 \<and> isLeap year then 29 else daysBefore m - daysBefore (m - 1))"

text \<open>Days from 0001-01-01 to January 1 of \<open>year\<close>: cycles of 400, 100, 4 and 1 years.\<close>

definition daysSinceEpoch :: "int \<Rightarrow> int" where
  "daysSinceEpoch year =
     (let y = year - 1;
          n400 = y div 400; y1 = y - 400 * n400;
          n100 = y1 div 100; y2 = y1 - 100 * n100;
          n4 = y2 div 4; y3 = y2 - 4 * n4
      in 146097 * n400 + 36524 * n100 + 1461 * n4 + 365 * y3)"

text \<open>
  The inverse: the year of day \<open>d\<close> and the day within that year, from 0. The last
  century of a 400-year cycle and the last year of a 4-year cycle are one day longer,
  so a quotient of 4 is cut back to 3 (\<open>n -= n >> 2\<close> in the library).
\<close>

definition absDate :: "int \<Rightarrow> int \<times> int" where
  "absDate d =
     (let n400 = d div 146097; d1 = d - 146097 * n400;
          k100 = d1 div 36524; n100 = k100 - k100 div 4; d2 = d1 - 36524 * n100;
          n4 = d2 div 1461; d3 = d2 - 1461 * n4;
          k1 = d3 div 365; n1 = k1 - k1 div 4; yday = d3 - 365 * n1
      in (400 * n400 + 100 * n100 + 4 * n4 + n1 + 1, yday))"

text \<open>Month and day of the month from the day of the year.\<close>

definition monthDay :: "int \<Rightarrow> int \<Rightarrow> int \<times> int" where
  "monthDay year yday =
     (if isLeap year \<and> yday = 59 then (2, 29)
      else
        let day = (if isLeap year \<and> yday > 59 then yday - 1 else yday);
            m = day div 31;
            end = daysBefore (m + 1)
        in if day \<ge> end then (m + 2, day - end + 1)
           else (m + 1, day - daysBefore m + 1))"

subsection \<open>Instants and locations\<close>

text \<open>
  A \<open>Time\<close> is an instant (seconds since 1970-01-01T00:00:00Z) with a location. The
  process's local zone is a parameter \<open>tz\<close> of everything that reads \<open>time.Local\<close>: the
  offset east of UTC, in seconds, in force at a given instant.
\<close>

datatype Location = UTC | Local | FixedZone int

record Time =
  unixSec :: int
  loc :: Location

type_synonym zone = "int \<Rightarrow> int"

definition unixToAbs :: int where
  "unixToAbs = 62135596800"

definition offsetOf :: "zone \<Rightarrow> Time \<Rightarrow> int" where
  "offsetOf tz t =
     (case loc t of UTC \<Rightarrow> 0 | Local \<Rightarrow> tz (unixSec t) | FixedZone off \<Rightarrow> off)"

text \<open>Seconds since 0001-01-01T00:00:00 on the wall clock of the time's location.\<close>

definition abs_sec :: "zone \<Rightarrow> Time \<Rightarrow> int" where
  "abs_sec tz t = unixSec t + offsetOf tz t + unixToAbs"

definition Year :: "zone \<Rightarrow> Time \<Rightarrow> int" where
  "Year tz t = fst (absDate (abs_sec tz t div 86400))"

definition YearDay0 :: "zone \<Rightarrow> Time \<Rightarrow> int" where
  "YearDay0 tz t = snd (absDate (abs_sec tz t div 86400))"

definition Month :: "zone \<Rightarrow> Time \<Rightarrow> int" where
  "Month tz t = fst (monthDay (Year tz t) (YearDay0 tz t))"

definition Day :: "zone \<Rightarrow> Time \<Rightarrow> int" where
  "Day tz t = snd (monthDay (Year tz t) (YearDay0 tz t))"

definition Hour :: "zone \<Rightarrow> Time \<Rightarrow> int" where
  "Hour tz t = (abs_sec tz t mod 86400) div 3600"

definition Minute :: "zone \<Rightarrow> Time \<Rightarrow> int" where
  "Minute tz t = (abs_sec tz t mod 3600) div 60"

definition Second :: "zone \<Rightarrow> Time \<Rightarrow> int" where
  "Second tz t = abs_sec tz t mod 60"

text \<open>Sunday is 0; day 0 (0001-01-01) is a Monday.\<close>

definition Weekday :: "zone \<Rightarrow> Time \<Rightarrow> int" where
  "Weekday tz t = (abs_sec tz t div 86400 + 1) mod 7"

text \<open>
  \<open>time.Date\<close>: the month overflows into the year, seconds, minutes and hours overflow
  into the day, and the day counts on from the first of the month, whatever its value.
  In the local zone the offset is looked up at the instant the wall clock would have
  in UTC, and once more at the instant that offset gives.
\<close>

definition dateDays :: "int \<Rightarrow> int \<Rightarrow> int \<Rightarrow> int" where
  "dateDays year month day =
     (let m0 = month - 1;
          year' = year + m0 div 12;
          m = m0 mod 12
      in daysSinceEpoch year' + daysBefore m
         + (if isLeap year' \<and> m + 1 \<ge> 3 then 1 else 0) + (day - 1))"

definition time_Date :: "zone \<Rightarrow> int \<Rightarrow> int \<Rightarrow> int \<Rightarrow> int \<Rightarrow> int \<Rightarrow> int \<Rightarrow> Location \<Rightarrow> Time" where
  "time_Date tz year month day hour minute sec l =
     (let min1 = minute + sec div 60; sec1 = sec mod 60;
          hour1 = hour + min1 div 60; min2 = min1 mod 60;
          day1 = day + hour1 div 24; hour2 = hour1 mod 24;
          unix = dateDays year month day1 * 86400
                 + hour2 * 3600 + min2 * 60 + sec1 - unixToAbs
      in case l of
           UTC \<Rightarrow> \<lparr>unixSec = unix, loc = UTC\<rparr>
         | FixedZone off \<Rightarrow> \<lparr>unixSec = unix - off, loc = FixedZone off\<rparr>
         | Local \<Rightarrow> \<lparr>unixSec = unix - tz (unix - tz unix), loc = Local\<rparr>)"


text \<open>
  \<open>ISOWeek\<close>: move to the Thursday of the week (weeks start on Monday); the ISO year is
  the year of that Thursday, the week is counted from its day of the year.
\<close>

definition ISOWeek :: "zone \<Rightarrow> Time \<Rightarrow> int \<times> int" where
  "ISOWeek tz t =
     (let days = abs_sec tz t div 86400;
          d = 4 - Weekday tz t;
          d' = (if d = 4 then - 3 else d);
          (year, yday) = absDate (days + d')
      in (year, yday div 7 + 1))"

subsection \<open>Decimal text\<close>

definition digit :: "nat \<Rightarrow> char" where
  "digit n = char_of (48 + n)"

fun decimal :: "nat \<Rightarrow> string" where
  "decimal n = (if n < 10 then [digit n] else decimal (n div 10) @ [digit (n mod 10)])"

declare decimal.simps [simp del]

definition zeroPad :: "nat \<Rightarrow> string \<Rightarrow> string" where
  "zeroPad width ds = replicate (width - length ds) (CHR ''0'') @ ds"

text \<open>\<open>appendInt\<close> of the time package: the width counts digits, the sign comes first.\<close>

definition appendInt :: "int \<Rightarrow> nat \<Rightarrow> string" where
  "appendInt x width =
     (if x < 0 then ''-'' @ zeroPad width (decimal (nat (- x)))
      else zeroPad width (decimal (nat x)))"

text \<open>The verbs \<open>%d\<close> and \<open>%02d\<close> of \<open>fmt.Printf\<close>: here the width counts the sign too.\<close>

definition fmt_d :: "int \<Rightarrow> string" where
  "fmt_d x = (if x < 0 then ''-'' @ decimal (nat (- x)) else decimal (nat x))"

definition fmt_02d :: "int \<Rightarrow> string" where
  "fmt_02d x =
     (if x < 0 then ''-'' @ zeroPad 1 (decimal (nat (- x))) else zeroPad 2 (decimal (nat x)))"

subsection \<open>The three layouts gcal formats with\<close>

definition shortMonthNames :: "string list" where
  "shortMonthNames = [''Jan'', ''Feb'', ''Mar'', ''Apr'', ''May'', ''Jun'',
                      ''Jul'', ''Aug'', ''Sep'', ''Oct'', ''Nov'', ''Dec'']"

definition shortDayNames :: "string list" where
  "shortDayNames = [''Sun'', ''Mon'', ''Tue'', ''Wed'', ''Thu'', ''Fri'', ''Sat'']"

text \<open>Layout \<open>Jan 02\<close>.\<close>

definition Format_Jan_02 :: "zone \<Rightarrow> Time \<Rightarrow> string" where
  "Format_Jan_02 tz t =
     shortMonthNames ! nat (Month tz t - 1) @ '' '' @ appendInt (Day tz t) 2"

text \<open>Layout \<open>2006-01-02 Mon 15:04:05\<close>.\<close>

definition Format_org :: "zone \<Rightarrow> Time \<Rightarrow> string" where
  "Format_org tz t =
     appendInt (Year tz t) 4 @ ''-'' @ appendInt (Month tz t) 2 @ ''-'' @ appendInt (Day tz t) 2
     @ '' '' @ shortDayNames ! nat (Weekday tz t)
     @ '' '' @ appendInt (Hour tz t) 2 @ '':'' @ appendInt (Minute tz t) 2
     @ '':'' @ appendInt (Second tz t) 2"

text \<open>
  Layout \<open>time.RFC3339\<close>, \<open>2006-01-02T15:04:05Z07:00\<close>: offset 0 prints \<open>Z\<close>, any other
  offset is cut to whole minutes (Go's \<open>/\<close> rounds towards zero).
\<close>

definition zoneText :: "int \<Rightarrow> string" where
  "zoneText offset =
     (if offset = 0 then ''Z''
      else
        let zone = (if offset < 0 then - ((- offset) div 60) else offset div 60)
        in if zone < 0
           then ''-'' @ appendInt ((- zone) div 60) 2 @ '':'' @ appendInt ((- zone) mod 60) 2
           else ''+'' @ appendInt (zone div 60) 2 @ '':'' @ appendInt (zone mod 60) 2)"

definition Format_RFC3339 :: "zone \<Rightarrow> Time \<Rightarrow> string" where
  "Format_RFC3339 tz t =
     appendInt (Year tz t) 4 @ ''-'' @ appendInt (Month tz t) 2 @ ''-'' @ appendInt (Day tz t) 2
     @ ''T'' @ appendInt (Hour tz t) 2 @ '':'' @ appendInt (Minute tz t) 2
     @ '':'' @ appendInt (Second tz t) 2 @ zoneText (offsetOf tz t)"

subsection \<open>The two layouts gcal parses with\<close>

definition isDigit :: "char \<Rightarrow> bool" where
  "isDigit c = (48 \<le> (of_char c :: nat) \<and> (of_char c :: nat) \<le> 57)"

definition digitVal :: "char \<Rightarrow> int" where
  "digitVal c = int (of_char c) - 48"

text \<open>\<open>getnum\<close>: one or two digits, exactly two when \<open>fixed\<close>.\<close>

fun getnum :: "string \<Rightarrow> bool \<Rightarrow> (int \<times> string) option" where
  "getnum [] fixed = None"
| "getnum [c1] fixed =
     (if \<not> isDigit c1 \<or> fixed then None else Some (digitVal c1, []))"
| "getnum (c1 # c2 # rest) fixed =
     (if \<not> isDigit c1 then None
      else if \<not> isDigit c2 then (if fixed then None else Some (digitVal c1, c2 # rest))
      else Some (digitVal c1 * 10 + digitVal c2, rest))"

text \<open>The four-digit year of \<open>2006\<close>.\<close>

fun getyear :: "string \<Rightarrow> (int \<times> string) option" where
  "getyear (c1 # c2 # c3 # c4 # rest) =
     (if isDigit c1 \<and> isDigit c2 \<and> isDigit c3 \<and> isDigit c4
      then Some (((digitVal c1 * 10 + digitVal c2) * 10 + digitVal c3) * 10 + digitVal c4, rest)
      else None)"
| "getyear _ = None"

text \<open>A literal character of the layout.\<close>

fun expect :: "char \<Rightarrow> string \<Rightarrow> string option" where
  "expect c [] = None"
| "expect c (x # xs) = (if x = c then Some xs else None)"

text \<open>
  The fields \<open>2006-01-02\<close>, shared by both layouts: the month is range-checked when
  read, the day only once the whole text has been read.
\<close>

definition getdate :: "string \<Rightarrow> ((int \<times> int \<times> int) \<times> string) option" where
  "getdate v0 =
     (case getyear v0 of None \<Rightarrow> None | Some (year, v1) \<Rightarrow>
      case expect (CHR ''-'') v1 of None \<Rightarrow> None | Some v2 \<Rightarrow>
      case getnum v2 True of None \<Rightarrow> None | Some (month, v3) \<Rightarrow>
      if month \<le> 0 \<or> 12 < month then None else
      case expect (CHR ''-'') v3 of None \<Rightarrow> None | Some v4 \<Rightarrow>
      case getnum v4 True of None \<Rightarrow> None | Some (day, v5) \<Rightarrow>
      Some ((year, month, day), v5))"

text \<open>
  Layout \<open>2006-01-02\<close>. Text left over is an error, then a day outside its month; no
  zone in the text means UTC.
\<close>

definition Parse_date :: "zone \<Rightarrow> string \<Rightarrow> Time option" where
  "Parse_date tz v0 =
     (case getdate v0 of None \<Rightarrow> None | Some ((year, month, day), v5) \<Rightarrow>
      if v5 \<noteq> [] then None
      else if day < 1 \<or> day > daysIn month year then None
      else Some (time_Date tz year month day 0 0 0 UTC))"

text \<open>The fields \<open>15:04:05\<close>: the hour may have one digit.\<close>

definition gettime :: "string \<Rightarrow> ((int \<times> int \<times> int) \<times> string) option" where
  "gettime v6 =
     (case getnum v6 False of None \<Rightarrow> None | Some (hour, v7) \<Rightarrow>
      if hour < 0 \<or> 24 \<le> hour then None else
      case expect (CHR '':'') v7 of None \<Rightarrow> None | Some v8 \<Rightarrow>
      case getnum v8 True of None \<Rightarrow> None | Some (minute, v9) \<Rightarrow>
      if minute < 0 \<or> 60 \<le> minute then None else
      case expect (CHR '':'') v9 of None \<Rightarrow> None | Some v10 \<Rightarrow>
      case getnum v10 True of None \<Rightarrow> None | Some (sec, v11) \<Rightarrow>
      if sec < 0 \<or> 60 \<le> sec then None else
      Some ((hour, minute, sec), v11))"

text \<open>
  The zone of layout \<open>Z07:00\<close>: \<open>Z\<close> is UTC, otherwise a sign, two digits, a colon and
  two digits, hours up to 24 and minutes up to 60. The result is the rest of the text
  and the offset in seconds, \<open>None\<close> standing for \<open>Z\<close>.
\<close>

definition getzone :: "string \<Rightarrow> (int option \<times> string) option" where
  "getzone v =
     (if v \<noteq> [] \<and> hd v = CHR ''Z'' then Some (None, tl v)
      else if length v < 6 then None
      else if v ! 3 \<noteq> CHR '':'' then None
      else
        case getnum (take 2 (drop 1 v)) True of None \<Rightarrow> None | Some (hr, _) \<Rightarrow>
        case getnum (take 2 (drop 4 v)) True of None \<Rightarrow> None | Some (mm, _) \<Rightarrow>
        if hr > 24 \<or> mm > 60 then None
        else if v ! 0 = CHR ''+'' then Some (Some ((hr * 60 + mm) * 60), drop 6 v)
        else if v ! 0 = CHR ''-'' then Some (Some (- ((hr * 60 + mm) * 60)), drop 6 v)
        else None)"

text \<open>A fraction of a second after the seconds is read and dropped.\<close>

definition skipFraction :: "string \<Rightarrow> string" where
  "skipFraction v =
     (if length v \<ge> 2 \<and> (v ! 0 = CHR ''.'' \<or> v ! 0 = CHR '','') \<and> isDigit (v ! 1)
      then dropWhile isDigit (tl v) else v)"

text \<open>
  Layout \<open>time.RFC3339\<close>. With an offset in the text, the result is in the local zone
  when the local zone has that offset at that instant, in a fixed zone otherwise.
\<close>

definition Parse_RFC3339 :: "zone \<Rightarrow> string \<Rightarrow> Time option" where
  "Parse_RFC3339 tz v0 =
     (case getdate v0 of None \<Rightarrow> None | Some ((year, month, day), v5) \<Rightarrow>
      case expect (CHR ''T'') v5 of None \<Rightarrow> None | Some v6 \<Rightarrow>
      case gettime v6 of None \<Rightarrow> None | Some ((hour, minute, sec), v11) \<Rightarrow>
      case getzone (skipFraction v11) of None \<Rightarrow> None | Some (z, v12) \<Rightarrow>
      if v12 \<noteq> [] then None
      else if day < 1 \<or> day > daysIn month year then None
      else
        case z of
          None \<Rightarrow> Some (time_Date tz year month day hour minute sec UTC)
        | Some zoneOffset \<Rightarrow>
            let t = time_Date tz year month day hour minute sec UTC;
                u = unixSec t - zoneOffset
            in if tz u = zoneOffset then Some \<lparr>unixSec = u, loc = Local\<rparr>
               else Some \<lparr>unixSec = u, loc = FixedZone zoneOffset\<rparr>)"


subsection \<open>strings.TrimSpace\<close>

text \<open>
  Go strings are byte strings in UTF-8. \<open>TrimSpace\<close> removes leading and trailing white
  space as Unicode defines it: six ASCII characters, and the code points U+0085, U+00A0,
  U+1680, U+2000 to U+200A, U+2028, U+2029, U+202F, U+205F and U+3000, listed here by
  their encodings.
\<close>

definition bytes :: "nat list \<Rightarrow> string" where
  "bytes ns = map char_of ns"

definition spaces :: "string list" where
  "spaces =
     map bytes
       [[9], [10], [11], [12], [13], [32], [194, 133], [194, 160], [225, 154, 128],
        [226, 128, 128], [226, 128, 129], [226, 128, 130], [226, 128, 131],
        [226, 128, 132], [226, 128, 133], [226, 128, 134], [226, 128, 135],
        [226, 128, 136], [226, 128, 137], [226, 128, 138], [226, 128, 168],
        [226, 128, 169], [226, 128, 175], [226, 129, 159], [227, 128, 128]]"

definition startsWith :: "string \<Rightarrow> string \<Rightarrow> bool" where
  "startsWith s p = (take (length p) s = p)"

text \<open>The length of the white space that \<open>s\<close> starts with, 0 if it starts with none.\<close>

definition spaceLen :: "string list \<Rightarrow> string \<Rightarrow> nat" where
  "spaceLen ps s = (case find (startsWith s) ps of None \<Rightarrow> 0 | Some p \<Rightarrow> length p)"

function trimLeft :: "string list \<Rightarrow> string \<Rightarrow> string" where
  "trimLeft ps s =
     (if s = [] \<or> spaceLen ps s = 0 then s else trimLeft ps (drop (spaceLen ps s) s))"
  by pat_completeness auto
termination
  by (relation "measure (\<lambda>(ps, s). length s)") auto

declare trimLeft.simps [simp del]

definition TrimSpace :: "string \<Rightarrow> string" where
  "TrimSpace s = rev (trimLeft (map rev spaces) (rev (trimLeft spaces s)))"

section \<open>gcal\<close>

subsection \<open>Data\<close>

text \<open>
  The flags of \<open>init\<close>, the entries of the calendar list and the events, with the fields
  gcal reads. \<open>Start\<close> is a pointer in the client library.
\<close>

record config =
  debug :: bool
  duration :: string
  format :: string
  emptycal :: bool

record CalendarListEntry =
  Id :: string
  Description :: string

record EventDateTime =
  Date :: string
  DateTime :: string

record Event =
  Summary :: string
  Start :: "EventDateTime option"

text \<open>
  What a run leaves behind: the text on standard output, the messages on standard
  error (the usage text of \<open>flag.PrintDefaults\<close>, \<open>log.Errorf\<close>, \<open>log.Fatalf\<close>; debug
  messages are left out), and the calls made to \<open>Events.List\<close> as calendar id,
  \<open>TimeMin\<close> and \<open>TimeMax\<close>.
\<close>

datatype log_entry = Usage | ErrorLog string | FatalLog string

record world =
  stdout :: string
  stderr :: "log_entry list"
  requests :: "(string \<times> string \<times> string) list"

text \<open>
  How the process ends: \<open>os.Exit\<close> with a status (\<open>log.Fatalf\<close> exits with 1), or a
  panic that nothing recovers, which the Go runtime turns into status 2.
\<close>

datatype panic_value =
  ParseError string | UnsupportedFormat | NilDereference | ListError string

datatype outcome = Exit int | Panic panic_value

definition exitStatus :: "outcome \<Rightarrow> int" where
  "exitStatus oc = (case oc of Exit n \<Rightarrow> n | Panic _ \<Rightarrow> 2)"

text \<open>
  The calendar service answers \<open>Events.List(calid).TimeMin(a).TimeMax(b).Do()\<close> with an
  error or with the items.
\<close>

type_synonym service = "string \<Rightarrow> string \<Rightarrow> string \<Rightarrow> string + Event list"

definition newline :: string where
  "newline = [CHR 0x0A]"

definition print :: "string \<Rightarrow> world \<Rightarrow> world" where
  "print s w = w\<lparr>stdout := stdout w @ s\<rparr>"

definition logError :: "string \<Rightarrow> world \<Rightarrow> world" where
  "logError s w = w\<lparr>stderr := stderr w @ [ErrorLog s]\<rparr>"

definition logFatal :: "string \<Rightarrow> world \<Rightarrow> world" where
  "logFatal s w = w\<lparr>stderr := stderr w @ [FatalLog s]\<rparr>"

subsection \<open>getEvents\<close>

text \<open>
  The four midnights of \<open>getEvents\<close> (src/main.go, lines 114 to 121); \<open>now\<close> is
  \<open>time.Now().Local()\<close>.
\<close>

definition nowLocal :: "int \<Rightarrow> Time" where
  "nowLocal u = \<lparr>unixSec = u, loc = Local\<rparr>"

definition midnight_today :: "zone \<Rightarrow> Time \<Rightarrow> Time" where
  "midnight_today tz now =
     time_Date tz (Year tz now) (Month tz now) (Day tz now) 0 0 0 Local"

definition midnight_tomorrow :: "zone \<Rightarrow> Time \<Rightarrow> Time" where
  "midnight_tomorrow tz now =
     time_Date tz (Year tz now) (Month tz now) (Day tz now + 1) 0 0 0 Local"

definition midnight_oneweek :: "zone \<Rightarrow> Time \<Rightarrow> Time" where
  "midnight_oneweek tz now =
     time_Date tz (Year tz now) (Month tz now) (Day tz now + 7) 0 0 0 Local"

definition midnight_onemonth :: "zone \<Rightarrow> Time \<Rightarrow> Time" where
  "midnight_onemonth tz now =
     time_Date tz (Year tz now) (Month tz now + 1) (Day tz now) 0 0 0 Local"

text \<open>
  The second half of \<open>getEvents\<close> (src/main.go, lines 133 to 151), once the end of the
  window is chosen: the call is made, an error of the service ends the process through
  \<open>log.Fatalf\<close> (status 1), and otherwise the items are returned without an error. The
  \<open>return events2return, err\<close> that follows \<open>log.Fatalf\<close> in the source is never run and
  has no counterpart here.
\<close>

definition listEvents ::
  "service \<Rightarrow> string \<Rightarrow> string \<Rightarrow> string \<Rightarrow> world
     \<Rightarrow> world \<times> (outcome + Event list \<times> string option)" where
  "listEvents srv calid timeMin endtime w =
     (let events2return = [];
          w1 = w\<lparr>requests := requests w @ [(calid, timeMin, endtime)]\<rparr>
      in case srv calid timeMin endtime of
           Inl err \<Rightarrow>
             (logFatal (''Unable to retrieve today's events from calendar '' @ calid
                        @ '': '' @ err) w1,
              Inl (Exit 1))
         | Inr items \<Rightarrow>
             (w1, Inr (if length items = 0 then events2return else items, None)))"

text \<open>
  \<open>getEvents\<close> of src/main.go. It returns to its caller with the events and an optional
  error (\<open>Inr\<close>), or ends the process (\<open>Inl\<close>). \<open>u\<close> is the reading of the clock;
  \<open>caldesc\<close> only feeds debug messages.
\<close>

definition getEvents ::
  "zone \<Rightarrow> service \<Rightarrow> config \<Rightarrow> int \<Rightarrow> string \<Rightarrow> string \<Rightarrow> world
     \<Rightarrow> world \<times> (outcome + Event list \<times> string option)" where
  "getEvents tz srv cfg u calid caldesc w =
     (let events2return = [];
          now = nowLocal u;
          timeMin = Format_RFC3339 tz (midnight_today tz now);
          endtime = Format_RFC3339 tz (midnight_tomorrow tz now)
      in if duration cfg = ''1w'' then
           listEvents srv calid timeMin (Format_RFC3339 tz (midnight_oneweek tz now)) w
         else if duration cfg = ''1m'' then
           listEvents srv calid timeMin (Format_RFC3339 tz (midnight_onemonth tz now)) w
         else if duration cfg \<noteq> ''1d'' then
           (logError (''Invalid duration: '' @ duration cfg) w,
            Inr (events2return, Some ''Invalid duration''))
         else listEvents srv calid timeMin endtime w)"

text \<open>
  \<open>getEvents\<close> of the earlier revision (src/unnamed/part_000): the same, without the
  month.
\<close>

definition getEvents_v0 ::
  "zone \<Rightarrow> service \<Rightarrow> config \<Rightarrow> int \<Rightarrow> string \<Rightarrow> string \<Rightarrow> world
     \<Rightarrow> world \<times> (outcome + Event list \<times> string option)" where
  "getEvents_v0 tz srv cfg u calid caldesc w =
     (let events2return = [];
          now = nowLocal u;
          timeMin = Format_RFC3339 tz (midnight_today tz now);
          endtime = Format_RFC3339 tz (midnight_tomorrow tz now)
      in if duration cfg = ''1w'' then
           listEvents srv calid timeMin (Format_RFC3339 tz (midnight_oneweek tz now)) w
         else if duration cfg \<noteq> ''1d'' then
           (logError (''Invalid duration: '' @ duration cfg) w,
            Inr (events2return, Some ''Invalid duration''))
         else listEvents srv calid timeMin endtime w)"

subsection \<open>main\<close>

text \<open>
  The body of the inner loop of \<open>main\<close> (src/main.go, lines 199 to 230): the start of the
  event is parsed, and the event is printed in the dialect of the run. The result is
  \<open>None\<close> when the loop goes on, and the end of the process otherwise.
\<close>

definition quote :: string where
  "quote = [CHR 0x22]"

definition remindLine :: "zone \<Rightarrow> Time \<Rightarrow> string \<Rightarrow> string" where
  "remindLine tz start summary =
     ''REM '' @ Format_Jan_02 tz start @ '' AT '' @ fmt_02d (Hour tz start) @ '':''
     @ fmt_02d (Minute tz start) @ '' MSG %'' @ quote @ summary @ ''%'' @ quote
     @ '' %b, %2'' @ newline"

definition orgBlock :: "zone \<Rightarrow> Time \<Rightarrow> string \<Rightarrow> string \<Rightarrow> string" where
  "orgBlock tz start summary calname =
     (let week = snd (ISOWeek tz start)
      in ''* '' @ summary @ '' <'' @ Format_org tz start @ ''>'' @ newline
         @ ''  #+PROPERTY: week='' @ fmt_d week @ newline
         @ (if calname \<noteq> [] then ''  #+PROPERTY: calendar='' @ calname @ newline else []))"

definition parseStart :: "zone \<Rightarrow> EventDateTime \<Rightarrow> panic_value + Time" where
  "parseStart tz st =
     (if DateTime st = [] then
        (case Parse_date tz (Date st) of
           None \<Rightarrow> Inl (ParseError (Date st)) | Some start \<Rightarrow> Inr start)
      else
        (case Parse_RFC3339 tz (DateTime st) of
           None \<Rightarrow> Inl (ParseError (DateTime st)) | Some start \<Rightarrow> Inr start))"

definition printEvent :: "config \<Rightarrow> zone \<Rightarrow> string \<Rightarrow> Event \<Rightarrow> world \<Rightarrow> world \<times> outcome option" where
  "printEvent cfg tz calname item w =
     (case Start item of
        None \<Rightarrow> (w, Some (Panic NilDereference))
      | Some st \<Rightarrow>
          (case parseStart tz st of
             Inl e \<Rightarrow> (w, Some (Panic e))
           | Inr start \<Rightarrow>
               let summary = TrimSpace (Summary item)
               in if format cfg = ''remind'' then (print (remindLine tz start summary) w, None)
                  else if format cfg = ''org'' then
                    (print (orgBlock tz start summary calname) w, None)
                  else (w, Some (Panic UnsupportedFormat))))"

fun eventsLoop :: "config \<Rightarrow> zone \<Rightarrow> string \<Rightarrow> Event list \<Rightarrow> world \<Rightarrow> world \<times> outcome option" where
  "eventsLoop cfg tz calname [] w = (w, None)"
| "eventsLoop cfg tz calname (item # items) w =
     (case printEvent cfg tz calname item w of
        (w', Some oc) \<Rightarrow> (w', Some oc)
      | (w', None) \<Rightarrow> eventsLoop cfg tz calname items w')"

text \<open>
  The outer loop (lines 188 to 232) over the calendar list. Each entry comes with the
  reading of the clock that \<open>getEvents\<close> takes when it is called for that entry. The
  events are fetched first; then a calendar whose trimmed description is empty is
  skipped unless \<open>emptycal\<close> is set; only then is the error of \<open>getEvents\<close> looked at.
\<close>

fun calendarsLoop ::
  "config \<Rightarrow> zone \<Rightarrow> service \<Rightarrow> (int \<times> CalendarListEntry) list \<Rightarrow> world
     \<Rightarrow> world \<times> outcome option" where
  "calendarsLoop cfg tz srv [] w = (w, None)"
| "calendarsLoop cfg tz srv ((u, item) # rest) w =
     (case getEvents tz srv cfg u (Id item) (Description item) w of
        (w1, Inl oc) \<Rightarrow> (w1, Some oc)
      | (w1, Inr (events, err)) \<Rightarrow>
          let calname = TrimSpace (Description item)
          in if calname = [] \<and> \<not> emptycal cfg then calendarsLoop cfg tz srv rest w1
             else
               (case err of
                  Some e \<Rightarrow> (logError e w1, Some (Exit 1))
                | None \<Rightarrow>
                    (case eventsLoop cfg tz calname events w1 of
                       (w2, Some oc) \<Rightarrow> (w2, Some oc)
                     | (w2, None) \<Rightarrow> calendarsLoop cfg tz srv rest w2)))"

text \<open>
  \<open>main\<close>. Reading the credentials, the token and building the client (lines 164 to
  179) are one step of the environment: \<open>startup\<close> is the message of the \<open>log.Fatalf\<close>
  that ends the run there, if any. \<open>calendars\<close> is the answer of \<open>getCalendarList\<close>.
\<close>

definition world0 :: world where
  "world0 = \<lparr>stdout = [], stderr = [], requests = []\<rparr>"

definition main ::
  "config \<Rightarrow> zone \<Rightarrow> service \<Rightarrow> string option \<Rightarrow> string + (int \<times> CalendarListEntry) list
     \<Rightarrow> world \<times> outcome" where
  "main cfg tz srv startup calendars =
     (case startup of
        Some msg \<Rightarrow> (logFatal msg world0, Exit 1)
      | None \<Rightarrow>
          (case calendars of
             Inl err \<Rightarrow> (world0, Panic (ListError err))
           | Inr items \<Rightarrow>
               let w1 = (if format cfg = ''org'' then print (''# -*- mode: org -*-'' @ newline) world0
                         else world0)
               in case calendarsLoop cfg tz srv items w1 of
                    (w2, Some oc) \<Rightarrow> (w2, oc)
                  | (w2, None) \<Rightarrow> (w2, Exit 0)))"

text \<open>\<open>init\<close> runs before \<open>main\<close>: without a format it prints the usage and exits with 1.\<close>

definition run ::
  "config \<Rightarrow> zone \<Rightarrow> service \<Rightarrow> string option \<Rightarrow> string + (int \<times> CalendarListEntry) list
     \<Rightarrow> world \<times> outcome" where
  "run cfg tz srv startup calendars =
     (if format cfg = [] then (world0\<lparr>stderr := [Usage]\<rparr>, Exit 1)
      else main cfg tz srv startup calendars)"


subsection \<open>Auxiliary notions and sample inputs\<close>

text \<open>The length of a year, and the day of the year on which a month starts.\<close>

definition yearLen :: "int \<Rightarrow> int" where
  "yearLen y = (if isLeap y then 366 else 365)"

definition monthStart :: "int \<Rightarrow> int \<Rightarrow> int" where
  "monthStart year m = daysBefore (m - 1) + (if isLeap year \<and> 3 \<le> m then 1 else 0)"

text \<open>
  Sample inputs: a zone five hours west of UTC, a service that is down, and the flags
  of a run.
\<close>

definition est :: zone where
  "est = (\<lambda>u. - 18000)"

definition srvDown :: service where
  "srvDown = (\<lambda>c a b. Inl ''down'')"

definition cfgOf :: "string \<Rightarrow> string \<Rightarrow> bool \<Rightarrow> config" where
  "cfgOf d f e = \<lparr>debug = False, duration = d, format = f, emptycal = e\<rparr>"

section \<open>Proofs\<close>

subsection \<open>getEvents and the service\<close>

lemma listEvents_cases:
  "listEvents srv calid a b w =
     (case srv calid a b of
        Inl err \<Rightarrow>
          (logFatal (''Unable to retrieve today's events from calendar '' @ calid @ '': '' @ err)
             (w\<lparr>requests := requests w @ [(calid, a, b)]\<rparr>),
           Inl (Exit 1))
      | Inr items \<Rightarrow> (w\<lparr>requests := requests w @ [(calid, a, b)]\<rparr>, Inr (items, None)))"
  by (cases "srv calid a b") (auto simp: listEvents_def Let_def)

lemma listEvents_requests:
  "requests (fst (listEvents srv calid a b w)) = requests w @ [(calid, a, b)]"
  by (cases "srv calid a b") (simp_all add: listEvents_cases logFatal_def)

lemma listEvents_fatal:
  "srv calid a b = Inl err \<Longrightarrow> snd (listEvents srv calid a b w) = Inl (Exit 1)"
  by (simp add: listEvents_cases)

lemma listEvents_no_error:
  "snd (listEvents srv calid a b w) \<noteq> Inr (evs, Some e)"
  by (cases "srv calid a b") (simp_all add: listEvents_cases)

text \<open>
  Claim C9. When the call that \<open>getEvents\<close> makes to the service is answered with an
  error, the process ends there with status 1 (\<open>log.Fatalf\<close>), so that error is never
  returned. Whenever \<open>getEvents\<close> does return an error to its caller, the error is
  \<open>Invalid duration\<close>: the duration is none of the three, the event list is empty and
  no call was made.
\<close>

theorem getEvents_service_error_terminates:
  assumes "getEvents tz srv cfg u calid caldesc w = (w', r)"
  shows "(requests w' = requests w @ [(calid, a, b)] \<and> srv calid a b = Inl err
            \<longrightarrow> r = Inl (Exit 1))
       \<and> (r = Inr (evs, Some e)
            \<longrightarrow> e = ''Invalid duration'' \<and> evs = [] \<and> requests w' = requests w
                \<and> duration cfg \<notin> {''1d'', ''1w'', ''1m''})"
proof -
  consider (w) "duration cfg = ''1w''" | (m) "duration cfg \<noteq> ''1w''" "duration cfg = ''1m''"
    | (d) "duration cfg = ''1d''" | (bad) "duration cfg \<notin> {''1d'', ''1w'', ''1m''}"
    by auto
  then show ?thesis
  proof cases
    case w
    then have g: "listEvents srv calid (Format_RFC3339 tz (midnight_today tz (nowLocal u)))
         (Format_RFC3339 tz (midnight_oneweek tz (nowLocal u))) w = (w', r)"
      using assms by (simp add: getEvents_def Let_def)
    show ?thesis
      using listEvents_requests[of srv calid _ _ w] listEvents_fatal[of srv calid _ _ _ w]
        listEvents_no_error[of srv calid _ _ w evs e] g
      by (metis append1_eq_conv fst_conv snd_conv prod.inject)
  next
    case m
    then have g: "listEvents srv calid (Format_RFC3339 tz (midnight_today tz (nowLocal u)))
         (Format_RFC3339 tz (midnight_onemonth tz (nowLocal u))) w = (w', r)"
      using assms by (simp add: getEvents_def Let_def)
    show ?thesis
      using listEvents_requests[of srv calid _ _ w] listEvents_fatal[of srv calid _ _ _ w]
        listEvents_no_error[of srv calid _ _ w evs e] g
      by (metis append1_eq_conv fst_conv snd_conv prod.inject)
  next
    case d
    then have g: "listEvents srv calid (Format_RFC3339 tz (midnight_today tz (nowLocal u)))
         (Format_RFC3339 tz (midnight_tomorrow tz (nowLocal u))) w = (w', r)"
      using assms by (simp add: getEvents_def Let_def)
    show ?thesis
      using listEvents_requests[of srv calid _ _ w] listEvents_fatal[of srv calid _ _ _ w]
        listEvents_no_error[of srv calid _ _ w evs e] g
      by (metis append1_eq_conv fst_conv snd_conv prod.inject)
  next
    case bad
    then have "getEvents tz srv cfg u calid caldesc w =
        (logError (''Invalid duration: '' @ duration cfg) w, Inr ([], Some ''Invalid duration''))"
      by (simp add: getEvents_def Let_def)
    then show ?thesis using assms bad by (auto simp: logError_def)
  qed
qed

theorem getEvents_service_error_terminates_witness:
  "snd (getEvents est srvDown (cfgOf ''1d'' ''remind'' False) 1736000000 ''work'' [] world0)
     = Inl (Exit 1)"
  using getEvents_service_error_terminates[where tz = est and srv = srvDown
      and cfg = "cfgOf ''1d'' ''remind'' False" and u = 1736000000 and calid = "''work''"
      and caldesc = "[]" and w = world0
      and a = "Format_RFC3339 est (midnight_today est (nowLocal 1736000000))"
      and b = "Format_RFC3339 est (midnight_tomorrow est (nowLocal 1736000000))"
      and err = "''down''", OF surjective_pairing]
  by (simp add: getEvents_def Let_def listEvents_cases srvDown_def cfgOf_def logFatal_def)

end
